theory Spec2Isabelle
  imports Main
begin

section \<open>Values, actions and handlers\<close>

text \<open>
  The development embeds the two source files of redux-box: \<^verbatim>\<open>dist/reducer.js\<close>
  (\<^verbatim>\<open>getReducer\<close>) and \<^verbatim>\<open>src/createStore.js\<close> (\<^verbatim>\<open>createStore\<close> and its
  \<^verbatim>\<open>rootSaga\<close>).

  JavaScript objects are shared by reference and two kinds of object matter here: the
  handler maps (\<^verbatim>\<open>module.mutations\<close>), which \<^verbatim>\<open>getReducer\<close> writes to, and the state
  snapshots, which reducers receive and return. Both live in an explicit store, at
  addresses; a value of type \<open>addr option\<close> is a JavaScript reference, with \<open>None\<close> for
  \<^verbatim>\<open>undefined\<close>.
\<close>

type_synonym addr = nat

datatype jsval =
    Undefined
  | Null
  | Bool bool
  | Num int
  | Str string
  | Arr "jsval list"
  | Obj "(string \<times> jsval) list"

text \<open>An action is an object with a \<^verbatim>\<open>type\<close> and further properties.\<close>

record action =
  type :: string
  payload :: "(string \<times> jsval) list"

datatype error =
    TypeError string
  | Thrown jsval

text \<open>
  A handler is called as \<^verbatim>\<open>method(draft_state, action)\<close> and its return value is dropped
  by the recipe \<^verbatim>\<open>function (draft_state) { method(draft_state, action); }\<close>. What the
  caller can observe of it is therefore one of three things: it threw, it returned
  without writing to the draft, or it returned after writing to the draft, whose content
  is then the given value. The handler is given the content of the draft.
\<close>

datatype outcome =
    Threw error
  | Untouched
  | Mutated jsval

type_synonym handler = "jsval \<Rightarrow> action \<Rightarrow> outcome"

record world =
  handler_maps :: "addr \<Rightarrow> (string \<rightharpoonup> handler)"
  snapshots :: "addr \<Rightarrow> jsval"
  next_addr :: addr
  console :: "(string \<times> error) list"

text \<open>
  \<open>handler_maps w a\<close> holds the own properties of the handler-map object at address
  \<open>a\<close>, the keys of the map: \<open>handler_maps w a k\<close> is \<open>None\<close> when the object has no
  property \<open>k\<close> of its own.
  \<open>snapshots w a\<close> is the content of the state object at \<open>a\<close>; the addresses below
  \<open>next_addr w\<close> are the allocated ones. \<open>console w\<close> holds the calls made to the
  console, oldest first, each with its message and the error passed along.
\<close>

type_synonym reducer = "addr option \<Rightarrow> action \<Rightarrow> world \<Rightarrow> (error + addr option) \<times> world"

section \<open>The copy-on-write step of the immer library\<close>

text \<open>
  \<^verbatim>\<open>produce(state, recipe)\<close> belongs to the immer library, which the repository imports.
  The model follows the library's contract: the recipe runs on a draft of the base; an
  exception of the recipe leaves \<^verbatim>\<open>produce\<close> as it is and no state is produced; a
  recipe that wrote nothing gives back the base itself; otherwise a new snapshot is
  allocated and the base is left as it was. A base that is \<^verbatim>\<open>undefined\<close> is handed to
  the recipe as it is, and writing a property of \<^verbatim>\<open>undefined\<close> is a TypeError.
\<close>

definition produce :: "addr option \<Rightarrow> (jsval \<Rightarrow> outcome) \<Rightarrow> world \<Rightarrow> (error + addr option) \<times> world" where
  "produce base recipe w =
     (case base of
        None \<Rightarrow>
          (case recipe Undefined of
             Threw e \<Rightarrow> (Inl e, w)
           | Untouched \<Rightarrow> (Inr None, w)
           | Mutated d \<Rightarrow> (Inl (TypeError ''Cannot set properties of undefined''), w))
      | Some a \<Rightarrow>
          (case recipe (snapshots w a) of
             Threw e \<Rightarrow> (Inl e, w)
           | Untouched \<Rightarrow> (Inr (Some a), w)
           | Mutated d \<Rightarrow>
               (Inr (Some (next_addr w)),
                w\<lparr>snapshots := (snapshots w)(next_addr w := d),
                  next_addr := Suc (next_addr w)\<rparr>)))"

section \<open>getReducer\<close>

text \<open>
  \<^verbatim>\<open>name + '__RESET__'\<close>: string concatenation, which turns a \<^verbatim>\<open>name\<close> that is
  \<^verbatim>\<open>undefined\<close> into the text \<^verbatim>\<open>undefined\<close>.
\<close>

definition reset_key :: "string option \<Rightarrow> string" where
  "reset_key name = (case name of None \<Rightarrow> ''undefined'' | Some n \<Rightarrow> n) @ ''__RESET__''"

text \<open>
  The injected handler is
  \<^verbatim>\<open>function (state, action) { try { state = initialState; } catch (err) { console.log(...); } }\<close>.
  Its body assigns to the parameter \<^verbatim>\<open>state\<close>, a local variable of the handler: the
  draft object the parameter referred to is not written to. The assignment of one
  variable to another cannot raise, so the \<^verbatim>\<open>catch\<close> branch with its \<^verbatim>\<open>console.log\<close>
  is never entered.
\<close>

definition reset_handler :: "addr option \<Rightarrow> string option \<Rightarrow> handler" where
  "reset_handler initialState name =
     (\<lambda>draft_state action. let state = initialState in Untouched)"

text \<open>
  \<^verbatim>\<open>actionList[action.type]\<close> is a property lookup: it finds an own property of the
  object, and otherwise what the object inherits. A handler map is a plain object
  (\<^verbatim>\<open>Object<String, Function>\<close>), which inherits the members of \<^verbatim>\<open>Object.prototype\<close>.
  The code calls what it found as \<^verbatim>\<open>method(draft_state, action)\<close>, in strict mode, so
  with \<^verbatim>\<open>this\<close> undefined. Each member is given by what that call does:
  \<^item> \<^verbatim>\<open>constructor\<close> is \<^verbatim>\<open>Object\<close>, which returns its argument, and \<^verbatim>\<open>toString\<close> returns
    a string for an undefined \<^verbatim>\<open>this\<close>: neither writes to the draft;
  \<^item> \<^verbatim>\<open>isPrototypeOf\<close> returns \<^verbatim>\<open>false\<close> for an argument that is no object, and
    otherwise converts \<^verbatim>\<open>this\<close> to an object, a TypeError;
  \<^item> \<^verbatim>\<open>valueOf\<close>, \<^verbatim>\<open>hasOwnProperty\<close>, \<^verbatim>\<open>propertyIsEnumerable\<close>, \<^verbatim>\<open>toLocaleString\<close> and
    the four accessor helpers convert \<^verbatim>\<open>this\<close> to an object, a TypeError;
  \<^item> \<^verbatim>\<open>__proto__\<close> yields the prototype object, which is truthy and no function:
    calling it is a TypeError.
\<close>

definition Object_prototype :: "string \<rightharpoonup> handler" where
  "Object_prototype =
     map_of
       [(''constructor'', \<lambda>draft_state action. Untouched),
        (''toString'', \<lambda>draft_state action. Untouched),
        (''isPrototypeOf'', \<lambda>draft_state action.
            case draft_state of
              Obj props \<Rightarrow> Threw (TypeError ''Cannot convert undefined or null to object'')
            | Arr elems \<Rightarrow> Threw (TypeError ''Cannot convert undefined or null to object'')
            | _ \<Rightarrow> Untouched),
        (''valueOf'', \<lambda>draft_state action.
            Threw (TypeError ''Cannot convert undefined or null to object'')),
        (''hasOwnProperty'', \<lambda>draft_state action.
            Threw (TypeError ''Cannot convert undefined or null to object'')),
        (''propertyIsEnumerable'', \<lambda>draft_state action.
            Threw (TypeError ''Cannot convert undefined or null to object'')),
        (''toLocaleString'', \<lambda>draft_state action.
            Threw (TypeError ''Cannot convert undefined or null to object'')),
        (''__defineGetter__'', \<lambda>draft_state action.
            Threw (TypeError ''Cannot convert undefined or null to object'')),
        (''__defineSetter__'', \<lambda>draft_state action.
            Threw (TypeError ''Cannot convert undefined or null to object'')),
        (''__lookupGetter__'', \<lambda>draft_state action.
            Threw (TypeError ''Cannot convert undefined or null to object'')),
        (''__lookupSetter__'', \<lambda>draft_state action.
            Threw (TypeError ''Cannot convert undefined or null to object'')),
        (''__proto__'', \<lambda>draft_state action.
            Threw (TypeError ''method is not a function''))]"

definition get_property :: "(string \<rightharpoonup> handler) \<Rightarrow> string \<Rightarrow> handler option" where
  "get_property own_properties k =
     (case own_properties k of
        Some m \<Rightarrow> Some m
      | None \<Rightarrow> Object_prototype k)"

text \<open>The function that \<^verbatim>\<open>getReducer\<close> returns, closed over \<^verbatim>\<open>actionList\<close> and \<^verbatim>\<open>initialState\<close>.\<close>

definition transition :: "addr \<Rightarrow> addr option \<Rightarrow> reducer" where
  "transition actionList initialState arg action w =
     (let state = (case arg of None \<Rightarrow> initialState | Some a \<Rightarrow> Some a);
          method = get_property (handler_maps w actionList) (type action)
      in case method of
           Some m \<Rightarrow> produce state (\<lambda>draft_state. m draft_state action) w
         | None \<Rightarrow> (Inr state, w))"

text \<open>
  \<^verbatim>\<open>getReducer(actionList, initialState, name)\<close> first writes the reset handler into the
  object it was given, then returns the transition function. Writing a property of an
  \<^verbatim>\<open>actionList\<close> that is \<^verbatim>\<open>undefined\<close> is a TypeError.
\<close>

definition getReducer ::
    "addr option \<Rightarrow> addr option \<Rightarrow> string option \<Rightarrow> world \<Rightarrow> error + (reducer \<times> world)" where
  "getReducer actionList initialState name w =
     (case actionList of
        None \<Rightarrow> Inl (TypeError ''Cannot set properties of undefined'')
      | Some al \<Rightarrow>
          Inr (transition al initialState,
               w\<lparr>handler_maps := (handler_maps w)
                    (al := (handler_maps w al)(reset_key name \<mapsto> reset_handler initialState name))\<rparr>))"

section \<open>createStore\<close>

text \<open>
  An element of a saga array is an effect routine, which the code never inspects, or the
  value \<^verbatim>\<open>undefined\<close>.
\<close>

datatype 'e item =
    Routine 'e
  | UndefinedItem

text \<open>
  A module as \<^verbatim>\<open>createStore\<close> reads it: the fields \<^verbatim>\<open>state\<close>, \<^verbatim>\<open>mutations\<close>, \<^verbatim>\<open>sagas\<close>
  and \<^verbatim>\<open>decorateReducer\<close>, each of which may be absent (\<open>None\<close>). \<^verbatim>\<open>state\<close> and
  \<^verbatim>\<open>mutations\<close> are references to objects, \<^verbatim>\<open>sagas\<close> is an array.
\<close>

record 'e module =
  state :: "addr option"
  mutations :: "addr option"
  sagas :: "'e item list option"
  decorateReducer :: "(reducer \<Rightarrow> reducer) option"

text \<open>The two options of \<^verbatim>\<open>config\<close> that the module loop and the saga list read.\<close>

record 'e config =
  reducers :: "(string \<rightharpoonup> reducer) option"
  config_sagas :: "'e item list option"

text \<open>
  \<^verbatim>\<open>xs.concat(arg)\<close>: an array argument contributes its elements, any other argument is
  appended as one element; the argument here is an array or \<^verbatim>\<open>undefined\<close>.
\<close>

definition concat_js :: "'e item list \<Rightarrow> 'e item list option \<Rightarrow> 'e item list" where
  "concat_js xs arg = (case arg of Some ys \<Rightarrow> xs @ ys | None \<Rightarrow> xs @ [UndefinedItem])"

type_synonym 'e registry = "(string \<times> 'e module) list"

text \<open>
  Modelled from the spec: \<^verbatim>\<open>moduleRegistry.register\<close>, whose file
  (\<^verbatim>\<open>src/moduleRegistry.js\<close>) is not among the sources. The spec describes a bookkeeping
  table from names to module objects that no behaviour depends on; the model records the
  registrations in the order they are made.
\<close>

definition register :: "string \<Rightarrow> 'e module \<Rightarrow> 'e registry \<Rightarrow> 'e registry" where
  "register moduleName m registry = registry @ [(moduleName, m)]"

text \<open>
  The variables the \<^verbatim>\<open>forEach\<close> callback updates: the local \<^verbatim>\<open>sagas\<close> and
  \<^verbatim>\<open>reducerList\<close>, the registry and the store of objects.
\<close>

type_synonym 'e loop = "'e item list \<times> (string \<rightharpoonup> reducer) \<times> 'e registry \<times> world"

text \<open>
  The callback of \<^verbatim>\<open>moduleNames.forEach\<close>. \<^verbatim>\<open>getReducer\<close> is called with two arguments,
  \<^verbatim>\<open>getReducer(module.mutations, module.state)\<close>, so its third parameter \<^verbatim>\<open>name\<close> is
  \<^verbatim>\<open>undefined\<close>. (\<^verbatim>\<open>createStore.js\<close> imports \<^verbatim>\<open>./getReducer\<close>; the \<^verbatim>\<open>getReducer\<close> of the
  sources is the one of \<^verbatim>\<open>dist/reducer.js\<close>.)
\<close>

definition forEach_callback :: "string \<times> 'e module \<Rightarrow> 'e loop \<Rightarrow> error + 'e loop" where
  "forEach_callback entry vars =
     (case (entry, vars) of
        ((moduleName, m), (sagas_var, reducerList, registry, w)) \<Rightarrow>
          (let registry' = register moduleName m registry;
               sagas_var' = concat_js sagas_var (sagas m)
           in case getReducer (mutations m) (state m) None w of
                Inl e \<Rightarrow> Inl e
              | Inr (r, w') \<Rightarrow>
                  (let moduleReducer = (case decorateReducer m of Some d \<Rightarrow> d r | None \<Rightarrow> r)
                   in Inr (sagas_var', reducerList(moduleName \<mapsto> moduleReducer), registry', w'))))"

text \<open>
  \<^verbatim>\<open>moduleNames.forEach\<close>, over the entries of \<^verbatim>\<open>modules\<close> in the order of
  \<^verbatim>\<open>Object.keys(modules)\<close>; an exception of the callback ends the loop.
\<close>

fun forEach :: "(string \<times> 'e module) list \<Rightarrow> 'e loop \<Rightarrow> error + 'e loop" where
  "forEach [] vars = Inr vars"
| "forEach (entry # rest) vars =
     (case forEach_callback entry vars of
        Inl e \<Rightarrow> Inl e
      | Inr vars' \<Rightarrow> forEach rest vars')"

text \<open>
  What \<^verbatim>\<open>createStore\<close> has built when it returns: the \<^verbatim>\<open>reducerList\<close> it hands to
  \<^verbatim>\<open>combineReducers\<close>, the array \<^verbatim>\<open>sagas\<close> that \<^verbatim>\<open>rootSaga\<close> closes over, the registry
  and the store of objects. The model ends where the array \<^verbatim>\<open>sagas\<close> is complete
  (line 74 of the source), and \<open>Inr\<close> says that the code has come this far. The
  statements that follow pass the values on to Redux and redux-saga (the middleware
  array, \<^verbatim>\<open>combineReducers\<close> and \<^verbatim>\<open>config.decorateReducer\<close>, the preloaded state, the
  store creator, \<^verbatim>\<open>sagaMiddleware.run\<close>) and can still raise there: Redux rejects a
  reducer that returns \<^verbatim>\<open>undefined\<close> for the initial state, as the reducer of a module
  without \<^verbatim>\<open>state\<close> does. So \<open>Inr\<close> does not say that \<^verbatim>\<open>createStore\<close> returns, and
  no theorem below concludes that it does: each one assumes the result.
\<close>

record 'e assembled =
  built_reducers :: "string \<rightharpoonup> reducer"
  built_sagas :: "'e item list"
  built_registry :: "'e registry"
  built_world :: world

definition createStore ::
    "(string \<times> 'e module) list \<Rightarrow> 'e config \<Rightarrow> 'e registry \<Rightarrow> world \<Rightarrow> error + 'e assembled" where
  "createStore modules cfg registry w =
     (let reducerList = (case reducers cfg of None \<Rightarrow> Map.empty | Some rs \<Rightarrow> rs);
          sagas_var = []
      in case forEach modules (sagas_var, reducerList, registry, w) of
           Inl e \<Rightarrow> Inl e
         | Inr (sagas_var', reducerList', registry', w') \<Rightarrow>
             Inr \<lparr>built_reducers = reducerList',
                  built_sagas =
                    (case config_sagas cfg of Some gs \<Rightarrow> sagas_var' @ gs | None \<Rightarrow> sagas_var'),
                  built_registry = registry',
                  built_world = w'\<rparr>)"

section \<open>rootSaga\<close>

text \<open>
  \<^verbatim>\<open>rootSaga\<close> is a generator:
  \<^verbatim>\<open>try { yield all(sagas); } catch (err) { console.error('[ERROR] ...', err); }\<close>.
  A generator is a state machine that its caller resumes, with a value (\<^verbatim>\<open>next\<close>) or
  with an exception raised at the point where it is suspended (\<^verbatim>\<open>throw\<close>). Each resumption
  ends with a yielded effect, with the return of the generator, or with an exception that
  leaves the generator.
\<close>

datatype gen_state =
    NotStarted
  | SuspendedAtYield
  | Completed

datatype resume =
    Next
  | Throw error

datatype 'e signal =
    YieldAll "'e item list"
  | Return
  | Raise error

fun rootSaga ::
    "'e item list \<Rightarrow> resume \<Rightarrow> gen_state \<times> world \<Rightarrow> 'e signal \<times> gen_state \<times> world" where
  "rootSaga sagas_var Next (NotStarted, w) = (YieldAll sagas_var, SuspendedAtYield, w)"
| "rootSaga sagas_var (Throw err) (NotStarted, w) = (Raise err, Completed, w)"
| "rootSaga sagas_var Next (SuspendedAtYield, w) = (Return, Completed, w)"
| "rootSaga sagas_var (Throw err) (SuspendedAtYield, w) =
     (Return, Completed,
      w\<lparr>console := console w @ [(''[ERROR] Something went wrong in rootSaga: '', err)]\<rparr>)"
| "rootSaga sagas_var Next (Completed, w) = (Return, Completed, w)"
| "rootSaga sagas_var (Throw err) (Completed, w) = (Raise err, Completed, w)"

text \<open>
  \<^verbatim>\<open>sagaMiddleware.run(rootSaga)\<close> belongs to redux-saga. Its contract: the generator is
  started; the effect \<^verbatim>\<open>all(sagas)\<close> it yields runs every routine of the array; when one
  of them ends with an uncaught error the effect is rejected and the error is thrown into
  the suspended generator; when all of them complete the generator is resumed; as long as
  neither happens the generator stays suspended.
\<close>

datatype settlement =
    Pending
  | Resolved
  | Rejected error

definition run :: "'e item list \<Rightarrow> settlement \<Rightarrow> world \<Rightarrow> 'e signal \<times> gen_state \<times> world" where
  "run sagas_var settled w =
     (case rootSaga sagas_var Next (NotStarted, w) of
        (YieldAll effects, g, w') \<Rightarrow>
          (case settled of
             Pending \<Rightarrow> (YieldAll effects, g, w')
           | Resolved \<Rightarrow> rootSaga sagas_var Next (g, w')
           | Rejected err \<Rightarrow> rootSaga sagas_var (Throw err) (g, w'))
      | finished \<Rightarrow> finished)"

section \<open>Observing a run\<close>

text \<open>
  The content a reference leads to, and what the caller of a reducer gets to see: the
  exception, or the content of the state that was returned (two results are structurally
  equal when these contents are equal).
\<close>

definition content :: "world \<Rightarrow> addr option \<Rightarrow> jsval" where
  "content w r = (case r of None \<Rightarrow> Undefined | Some a \<Rightarrow> snapshots w a)"

definition observe :: "(error + addr option) \<times> world \<Rightarrow> error + jsval" where
  "observe out = (case out of (Inl e, w) \<Rightarrow> Inl e | (Inr r, w) \<Rightarrow> Inr (content w r))"

text \<open>A reference is allocated when it is \<^verbatim>\<open>undefined\<close> or the address of an existing object.\<close>

definition allocated :: "world \<Rightarrow> addr option \<Rightarrow> bool" where
  "allocated w r = (case r of None \<Rightarrow> True | Some a \<Rightarrow> a < next_addr w)"

text \<open>
  A store holding one reducer: each dispatched action replaces the current state by
  \<^verbatim>\<open>reducer(state, action)\<close>; an exception of the reducer leaves \<^verbatim>\<open>dispatch\<close>.
\<close>

fun dispatch_all ::
    "reducer \<Rightarrow> action list \<Rightarrow> addr option \<Rightarrow> world \<Rightarrow> (error + addr option) \<times> world" where
  "dispatch_all r [] current w = (Inr current, w)"
| "dispatch_all r (a # rest) current w =
     (case r current a w of
        (Inl e, w') \<Rightarrow> (Inl e, w')
      | (Inr next_state, w') \<Rightarrow> dispatch_all r rest next_state w')"

section \<open>Example modules\<close>

text \<open>
  The module \<^verbatim>\<open>orders\<close> of the specification: initial state \<^verbatim>\<open>{items: []}\<close>, a handler
  \<^verbatim>\<open>ADD_ITEM\<close> doing \<^verbatim>\<open>draft.items.push(action.item)\<close>, and a handler \<^verbatim>\<open>FAIL\<close> that
  throws. The handlers are given for drafts of the module's shape.
\<close>

definition push_item :: handler where
  "push_item draft_state action =
     (case draft_state of
        Obj [(k, Arr xs)] \<Rightarrow>
          Mutated (Obj [(k, Arr (xs @ [case map_of (payload action) ''item'' of
                                           None \<Rightarrow> Undefined | Some v \<Rightarrow> v]))])
      | _ \<Rightarrow> Threw (TypeError ''Cannot read properties of undefined''))"

definition failing :: handler where
  "failing draft_state action = Threw (Thrown (Str ''boom''))"

definition orders_world :: world where
  "orders_world =
     \<lparr>handler_maps = (\<lambda>a. Map.empty)(0 := [''ADD_ITEM'' \<mapsto> push_item, ''FAIL'' \<mapsto> failing]),
      snapshots = (\<lambda>a. Undefined)(0 := Obj [(''items'', Arr [])]),
      next_addr = 1,
      console = []\<rparr>"

definition add_x :: action where
  "add_x = \<lparr>type = ''ADD_ITEM'', payload = [(''item'', Str ''x'')]\<rparr>"

definition fail_action :: action where
  "fail_action = \<lparr>type = ''FAIL'', payload = []\<rparr>"

definition orders_reset :: action where
  "orders_reset = \<lparr>type = ''orders__RESET__'', payload = []\<rparr>"



text \<open>
  The same module with a handler of the caller's own at the key \<^verbatim>\<open>orders__RESET__\<close>,
  doing \<^verbatim>\<open>draft.items = ['own']\<close>.
\<close>

definition own_reset :: handler where
  "own_reset draft_state action = Mutated (Obj [(''items'', Arr [Str ''own''])])"

definition reserved_world :: world where
  "reserved_world =
     \<lparr>handler_maps = (\<lambda>a. Map.empty)
        (0 := [''ADD_ITEM'' \<mapsto> push_item, ''orders__RESET__'' \<mapsto> own_reset]),
      snapshots = (\<lambda>a. Undefined)(0 := Obj [(''items'', Arr [])]),
      next_addr = 1,
      console = []\<rparr>"

definition orders_module :: "nat module" where
  "orders_module = \<lparr>state = Some 0, mutations = Some 0, sagas = None, decorateReducer = None\<rparr>"

text \<open>
  The modules \<^verbatim>\<open>counter\<close> (state \<^verbatim>\<open>{n: 0}\<close>, \<^verbatim>\<open>INCREMENT\<close> doing \<^verbatim>\<open>draft.n += 1\<close>) and
  \<^verbatim>\<open>flag\<close> (state \<^verbatim>\<open>{on: false}\<close>, \<^verbatim>\<open>TOGGLE\<close> doing \<^verbatim>\<open>draft.on = !draft.on\<close>) of the
  specification's end-to-end scenario, with effect routines \<open>1\<close> and \<open>2\<close>, and a
  configuration with the global effect routine \<open>3\<close>.
\<close>

definition increment :: handler where
  "increment draft_state action =
     (case draft_state of
        Obj [(k, Num n)] \<Rightarrow> Mutated (Obj [(k, Num (n + 1))])
      | _ \<Rightarrow> Threw (TypeError ''Cannot read properties of undefined''))"

definition toggle :: handler where
  "toggle draft_state action =
     (case draft_state of
        Obj [(k, Bool b)] \<Rightarrow> Mutated (Obj [(k, Bool (\<not> b))])
      | _ \<Rightarrow> Threw (TypeError ''Cannot read properties of undefined''))"

definition e2e_world :: world where
  "e2e_world =
     \<lparr>handler_maps = (\<lambda>a. Map.empty)
        (0 := [''INCREMENT'' \<mapsto> increment], 1 := [''TOGGLE'' \<mapsto> toggle]),
      snapshots = (\<lambda>a. Undefined)
        (0 := Obj [(''n'', Num 0)], 1 := Obj [(''on'', Bool False)]),
      next_addr = 2,
      console = []\<rparr>"

definition counter_module :: "nat module" where
  "counter_module =
     \<lparr>state = Some 0, mutations = Some 0, sagas = Some [Routine 1], decorateReducer = None\<rparr>"

definition flag_module :: "nat module" where
  "flag_module =
     \<lparr>state = Some 1, mutations = Some 1, sagas = Some [Routine 2], decorateReducer = None\<rparr>"

definition e2e_config :: "nat config" where
  "e2e_config = \<lparr>reducers = None, config_sagas = Some [Routine 3]\<rparr>"

definition toggle_action :: action where
  "toggle_action = \<lparr>type = ''TOGGLE'', payload = []\<rparr>"

definition flag_reset :: action where
  "flag_reset = \<lparr>type = ''flag__RESET__'', payload = []\<rparr>"

text \<open>
  The store of objects once \<^verbatim>\<open>getReducer(mutations, state, 'orders')\<close> has run on
  \<open>orders_world\<close>.
\<close>

definition orders_built :: world where
  "orders_built =
     orders_world\<lparr>handler_maps := (handler_maps orders_world)
        (0 := (handler_maps orders_world 0)
           (''orders__RESET__'' \<mapsto> reset_handler (Some 0) (Some ''orders'')))\<rparr>"

definition e2e_modules :: "(string \<times> nat module) list" where
  "e2e_modules = [(''counter'', counter_module), (''flag'', flag_module)]"

text \<open>What \<^verbatim>\<open>createStore\<close> builds from these two modules, written out.\<close>

definition e2e_store :: "nat assembled" where
  "e2e_store =
     \<lparr>built_reducers =
        [''counter'' \<mapsto> transition 0 (Some 0), ''flag'' \<mapsto> transition 1 (Some 1)],
      built_sagas = [Routine 1, Routine 2, Routine 3],
      built_registry = e2e_modules,
      built_world = e2e_world\<lparr>handler_maps := (handler_maps e2e_world)
        (0 := (handler_maps e2e_world 0)
           (''undefined__RESET__'' \<mapsto> reset_handler (Some 0) None),
         1 := (handler_maps e2e_world 1)
           (''undefined__RESET__'' \<mapsto> reset_handler (Some 1) None))\<rparr>\<rparr>"

text \<open>
  An empty configuration, and what \<^verbatim>\<open>createStore\<close> builds with it from the module
  \<^verbatim>\<open>orders\<close> whose handler map has the caller's own entry at \<^verbatim>\<open>orders__RESET__\<close>.
\<close>

definition plain_config :: "nat config" where
  "plain_config = \<lparr>reducers = None, config_sagas = None\<rparr>"

definition reserved_store :: "nat assembled" where
  "reserved_store =
     \<lparr>built_reducers = [''orders'' \<mapsto> transition 0 (Some 0)],
      built_sagas = [UndefinedItem],
      built_registry = [(''orders'', orders_module)],
      built_world = reserved_world\<lparr>handler_maps := (handler_maps reserved_world)
        (0 := (handler_maps reserved_world 0)
           (''undefined__RESET__'' \<mapsto> reset_handler (Some 0) None))\<rparr>\<rparr>"

section \<open>Properties of getReducer\<close>

lemma getReducer_returns_transition:
  "getReducer (Some al) initialState name w0 = Inr (r, w1) \<Longrightarrow> r = transition al initialState"
  by (auto simp: getReducer_def)

lemma transition_frame:
  "handler_maps (snd (transition al initialState arg action w)) = handler_maps w
   \<and> console (snd (transition al initialState arg action w)) = console w
   \<and> (\<forall>a<next_addr w. snapshots (snd (transition al initialState arg action w)) a = snapshots w a)"
  by (auto simp: transition_def get_property_def produce_def Let_def split: option.splits outcome.splits)

lemma transition_repeat:
  assumes "allocated w initialState" and "allocated w arg"
  shows "observe (transition al initialState arg action (snd (transition al initialState arg action w)))
         = observe (transition al initialState arg action w)"
  using assms
  by (auto simp: transition_def get_property_def produce_def observe_def content_def allocated_def Let_def
      split: option.splits outcome.splits)

lemma transition_ignores_console:
  "observe (transition al initialState arg action (w\<lparr>console := c\<rparr>))
   = observe (transition al initialState arg action w)"
  by (auto simp: transition_def get_property_def produce_def observe_def content_def Let_def
      split: option.splits outcome.splits)

text \<open>
  The injected handler never writes to the draft, so the reset action leaves every state
  as it is, for every module.
\<close>

lemma reset_action_changes_nothing:
  assumes "getReducer (Some al) initialState name w0 = Inr (r, w1)"
  shows "r (Some s) \<lparr>type = reset_key name, payload = p\<rparr> w1 = (Inr (Some s), w1)"
  using assms
  by (auto simp: getReducer_def transition_def get_property_def produce_def reset_handler_def Let_def)

lemma orders_getReducer:
  "getReducer (Some 0) (Some 0) (Some ''orders'') orders_world
   = Inr (transition 0 (Some 0), orders_built)"
  by (simp add: getReducer_def orders_built_def reset_key_def)

text \<open>
  C1. The claim: dispatching a module's reset action returns the module's declared
  initial state; for \<^verbatim>\<open>orders\<close> with initial state \<^verbatim>\<open>{items: []}\<close>, after \<^verbatim>\<open>ADD_ITEM\<close>
  has pushed \<^verbatim>\<open>'x'\<close> and \<^verbatim>\<open>orders__RESET__\<close> is dispatched, the state is \<^verbatim>\<open>{items: []}\<close>.
  The code does not do so: after these two actions the state of the reducer built by
  \<^verbatim>\<open>getReducer(mutations, state, 'orders')\<close> is \<^verbatim>\<open>{items: ['x']}\<close>.
\<close>

theorem reset_keeps_pushed_item:
  "getReducer (Some 0) (Some 0) (Some ''orders'') orders_world
     = Inr (transition 0 (Some 0), orders_built)
   \<and> observe (dispatch_all (transition 0 (Some 0)) [add_x, orders_reset] None orders_built)
       = Inr (Obj [(''items'', Arr [Str ''x''])])"
  by (simp add: orders_getReducer)
     (simp add: orders_built_def orders_world_def transition_def get_property_def produce_def observe_def
      content_def reset_handler_def add_x_def orders_reset_def push_item_def)

text \<open>
  C2. The claim: when a handler throws, the transition function does not raise, returns
  the state unchanged and logs exactly one diagnostic. On the code the exception of the
  handler leaves the transition function and nothing is logged: for the module
  \<^verbatim>\<open>orders\<close> the action \<^verbatim>\<open>FAIL\<close> raises \<^verbatim>\<open>'boom'\<close> and the console stays empty.
\<close>

theorem throwing_handler_raises_unlogged:
  "getReducer (Some 0) (Some 0) (Some ''orders'') orders_world
     = Inr (transition 0 (Some 0), orders_built)
   \<and> console orders_built = []
   \<and> fst (transition 0 (Some 0) (Some 0) fail_action orders_built) = Inl (Thrown (Str ''boom''))
   \<and> console (snd (transition 0 (Some 0) (Some 0) fail_action orders_built)) = []"
  by (simp add: orders_getReducer)
     (simp add: orders_built_def orders_world_def transition_def get_property_def produce_def
      fail_action_def failing_def)

text \<open>
  C2, as amended: when the handler looked up for the action throws on the state's draft,
  the transition function raises that same error to its caller; no state is returned,
  and the store of objects and the console are exactly as before the call.
\<close>

theorem throwing_handler_propagates:
  assumes "getReducer (Some actionList) initialState name w0 = Inr (r, w1)"
    and "handler_maps w actionList (type action) = Some h"
    and "h (content w (case arg of None \<Rightarrow> initialState | Some a \<Rightarrow> Some a)) action = Threw e"
  shows "r arg action w = (Inl e, w)"
  using assms
  by (auto simp: getReducer_def transition_def get_property_def produce_def content_def Let_def
      split: option.splits outcome.splits)

theorem throwing_handler_propagates_witness:
  "getReducer (Some 0) (Some 0) (Some ''orders'') orders_world
     = Inr (transition 0 (Some 0), orders_built)
   \<and> handler_maps orders_built 0 (type fail_action) = Some failing
   \<and> failing (content orders_built (Some 0)) fail_action = Threw (Thrown (Str ''boom''))
   \<and> transition 0 (Some 0) (Some 0) fail_action orders_built
       = (Inl (Thrown (Str ''boom'')), orders_built)"
proof -
  have looked_up: "handler_maps orders_built 0 (type fail_action) = Some failing"
    by (simp add: orders_built_def orders_world_def fail_action_def)
  have throws:
    "failing (content orders_built (case Some 0 of None \<Rightarrow> Some 0 | Some a \<Rightarrow> Some a)) fail_action
     = Threw (Thrown (Str ''boom''))"
    by (simp add: failing_def)
  from throwing_handler_propagates [OF orders_getReducer looked_up throws]
  have "transition 0 (Some 0) (Some 0) fail_action orders_built
        = (Inl (Thrown (Str ''boom'')), orders_built)" .
  with orders_getReducer looked_up throws show ?thesis by simp
qed




text \<open>
  C5. Every transition function built by \<^verbatim>\<open>getReducer\<close> is pure. Handlers are functions
  of the draft and the action, as the specification's Handler type has them. Calling the
  transition function a second time with the same state and action, after the first
  call, gives a structurally equal result (the same exception, or a state of equal
  content); and a call writes to no object that existed before it, so the state passed
  in keeps its content, and the handler maps are as before.
\<close>

theorem transition_is_pure:
  assumes "getReducer (Some actionList) initialState name w0 = Inr (r, w1)"
    and "allocated w initialState"
    and "allocated w arg"
  shows "observe (r arg action (snd (r arg action w))) = observe (r arg action w)
       \<and> (\<forall>a<next_addr w. snapshots (snd (r arg action w)) a = snapshots w a)
       \<and> content (snd (r arg action w)) arg = content w arg
       \<and> handler_maps (snd (r arg action w)) = handler_maps w"
proof -
  have r: "r = transition actionList initialState"
    using assms(1) by (rule getReducer_returns_transition)
  have frame: "\<forall>a<next_addr w. snapshots (snd (r arg action w)) a = snapshots w a"
    and maps: "handler_maps (snd (r arg action w)) = handler_maps w"
    using transition_frame [of actionList initialState arg action w] by (simp_all add: r)
  have "content (snd (r arg action w)) arg = content w arg"
    using frame assms(3) by (cases arg) (simp_all add: content_def allocated_def)
  moreover have "observe (r arg action (snd (r arg action w))) = observe (r arg action w)"
    using transition_repeat [OF assms(2,3)] by (simp add: r)
  ultimately show ?thesis using frame maps by simp
qed

theorem transition_is_pure_witness:
  "getReducer (Some 0) (Some 0) (Some ''orders'') orders_world
     = Inr (transition 0 (Some 0), orders_built)
   \<and> allocated orders_built (Some 0)
   \<and> observe (transition 0 (Some 0) (Some 0) add_x orders_built)
       = Inr (Obj [(''items'', Arr [Str ''x''])])
   \<and> observe (transition 0 (Some 0) (Some 0) add_x
                (snd (transition 0 (Some 0) (Some 0) add_x orders_built)))
       = observe (transition 0 (Some 0) (Some 0) add_x orders_built)
   \<and> content (snd (transition 0 (Some 0) (Some 0) add_x orders_built)) (Some 0)
       = content orders_built (Some 0)"
proof -
  have alloc: "allocated orders_built (Some 0)"
    by (simp add: allocated_def orders_built_def orders_world_def)
  have first: "observe (transition 0 (Some 0) (Some 0) add_x orders_built)
               = Inr (Obj [(''items'', Arr [Str ''x''])])"
    by (simp add: transition_def get_property_def produce_def observe_def content_def orders_built_def
        orders_world_def add_x_def push_item_def)
  from transition_is_pure [OF orders_getReducer alloc alloc, of add_x]
  show ?thesis using orders_getReducer alloc first by blast
qed

section \<open>Properties of createStore\<close>

lemma callback_sagas_registry:
  "forEach_callback entry (sg, rl, reg, w) = Inr (sg', rl', reg', w') \<Longrightarrow>
   sg' = sg @ concat_js [] (sagas (snd entry)) \<and> reg' = reg @ [entry]"
  by (cases entry) (auto simp: forEach_callback_def register_def concat_js_def Let_def
      split: sum.splits option.splits prod.splits)

lemma forEach_sagas_registry:
  "forEach ms (sg, rl, reg, w) = Inr (sg', rl', reg', w') \<Longrightarrow>
   sg' = sg @ concat (map (\<lambda>entry. concat_js [] (sagas (snd entry))) ms) \<and> reg' = reg @ ms"
proof (induction ms arbitrary: sg rl reg w)
  case Nil
  then show ?case by simp
next
  case (Cons entry rest)
  from Cons.prems obtain sg1 rl1 reg1 w1 where
    step: "forEach_callback entry (sg, rl, reg, w) = Inr (sg1, rl1, reg1, w1)"
    and rest: "forEach rest (sg1, rl1, reg1, w1) = Inr (sg', rl', reg', w')"
    by (auto split: sum.splits)
  from callback_sagas_registry [OF step] Cons.IH [OF rest] show ?case by simp
qed

lemma callback_world:
  "forEach_callback entry (sg, rl, reg, w) = Inr (sg', rl', reg', w') \<Longrightarrow>
   snapshots w' = snapshots w \<and> next_addr w' = next_addr w \<and> console w' = console w
   \<and> (\<forall>al k. k \<noteq> reset_key None \<longrightarrow> handler_maps w' al k = handler_maps w al k)
   \<and> (\<forall>al. Some al \<noteq> mutations (snd entry) \<longrightarrow> handler_maps w' al = handler_maps w al)"
  by (cases entry) (auto simp: forEach_callback_def getReducer_def Let_def
      split: sum.splits option.splits prod.splits)

lemma forEach_world:
  "forEach ms (sg, rl, reg, w) = Inr (sg', rl', reg', w') \<Longrightarrow>
   snapshots w' = snapshots w \<and> next_addr w' = next_addr w \<and> console w' = console w
   \<and> (\<forall>al k. k \<noteq> reset_key None \<longrightarrow> handler_maps w' al k = handler_maps w al k)
   \<and> (\<forall>al. Some al \<notin> set (map (mutations \<circ> snd) ms) \<longrightarrow> handler_maps w' al = handler_maps w al)"
proof (induction ms arbitrary: sg rl reg w)
  case Nil
  then show ?case by simp
next
  case (Cons entry rest)
  from Cons.prems obtain sg1 rl1 reg1 w1 where
    step: "forEach_callback entry (sg, rl, reg, w) = Inr (sg1, rl1, reg1, w1)"
    and rest: "forEach rest (sg1, rl1, reg1, w1) = Inr (sg', rl', reg', w')"
    by (auto split: sum.splits)
  from callback_world [OF step] Cons.IH [OF rest] show ?case by simp
qed

lemma callback_returns:
  "mutations (snd entry) = Some al \<Longrightarrow>
   \<exists>vars'. forEach_callback entry (sg, rl, reg, w) = Inr vars'"
  by (cases entry) (simp add: forEach_callback_def getReducer_def Let_def)

lemma forEach_returns:
  "\<forall>entry\<in>set ms. mutations (snd entry) \<noteq> None \<Longrightarrow> \<exists>vars'. forEach ms vars = Inr vars'"
proof (induction ms arbitrary: vars)
  case Nil
  have "forEach [] vars = Inr vars" by simp
  then show ?case ..
next
  case (Cons entry rest)
  then obtain al where al: "mutations (snd entry) = Some al" by auto
  obtain sg rl reg w where "vars = (sg, rl, reg, w)" by (rule prod_cases4)
  with callback_returns [OF al]
  obtain v1 where "forEach_callback entry vars = Inr v1" by blast
  moreover from Cons obtain v2 where "forEach rest v1 = Inr v2" by fastforce
  ultimately have "forEach (entry # rest) vars = Inr v2" by simp
  then show ?case ..
qed

lemma createStore_forEach:
  assumes "createStore modules cfg registry w = Inr b"
  obtains sg rl reg w' where
    "forEach modules ([], (case reducers cfg of None \<Rightarrow> Map.empty | Some rs \<Rightarrow> rs), registry, w)
       = Inr (sg, rl, reg, w')"
    and "built_sagas b = (case config_sagas cfg of Some gs \<Rightarrow> sg @ gs | None \<Rightarrow> sg)"
    and "built_registry b = reg" and "built_world b = w'" and "built_reducers b = rl"
  using assms by (auto simp: createStore_def Let_def split: sum.splits)

lemma e2e_createStore: "createStore e2e_modules e2e_config [] e2e_world = Inr e2e_store"
  by (simp add: createStore_def forEach_callback_def register_def concat_js_def
      getReducer_def reset_key_def e2e_modules_def e2e_store_def e2e_config_def
      counter_module_def flag_module_def)

lemma reserved_createStore:
  "createStore [(''orders'', orders_module)] plain_config [] reserved_world = Inr reserved_store"
  by (simp add: createStore_def forEach_callback_def register_def concat_js_def
      getReducer_def reset_key_def reserved_store_def plain_config_def orders_module_def)

text \<open>
  C3. The claim: the reset action type of a module registered under name \<open>N\<close> is
  \<open>N\<close> followed by \<^verbatim>\<open>__RESET__\<close>, and dispatching it resets that module's sub-state. The
  code does neither: \<^verbatim>\<open>createStore\<close> calls \<^verbatim>\<open>getReducer\<close> without the name, so the key
  injected into the handler map of \<^verbatim>\<open>flag\<close> is \<^verbatim>\<open>undefined__RESET__\<close> and there is no
  entry \<^verbatim>\<open>flag__RESET__\<close>; after \<^verbatim>\<open>TOGGLE\<close> and \<^verbatim>\<open>flag__RESET__\<close> the state of \<^verbatim>\<open>flag\<close>
  is \<^verbatim>\<open>{on: true}\<close>, not the initial \<^verbatim>\<open>{on: false}\<close>.
\<close>

theorem flag_reset_type_not_handled:
  "createStore e2e_modules e2e_config [] e2e_world = Inr e2e_store
   \<and> handler_maps (built_world e2e_store) 1 ''flag__RESET__'' = None
   \<and> handler_maps (built_world e2e_store) 1 ''undefined__RESET__''
       = Some (reset_handler (Some 1) None)
   \<and> built_reducers e2e_store ''flag'' = Some (transition 1 (Some 1))
   \<and> observe (dispatch_all (transition 1 (Some 1)) [toggle_action, flag_reset] None
                (built_world e2e_store))
       = Inr (Obj [(''on'', Bool True)])"
  by (simp add: e2e_createStore)
     (simp add: e2e_store_def e2e_world_def transition_def get_property_def Object_prototype_def
      produce_def observe_def content_def reset_handler_def toggle_action_def flag_reset_def
      toggle_def)

text \<open>
  C6. When an effect routine of the aggregated array fails, redux-saga throws the error
  into \<^verbatim>\<open>rootSaga\<close>, suspended at \<^verbatim>\<open>yield all(sagas)\<close>. The generator catches it, makes
  one call to \<^verbatim>\<open>console.error\<close> with the error, and returns: no exception leaves it.
  Once completed it never yields an effect again, whatever it is resumed with, so
  nothing is run a second time. The objects of the store are untouched, and every
  transition function gives the same observable result after the failure as before.
\<close>

theorem effect_failure_is_contained:
  "run sagas_var (Rejected err) w
     = (Return, Completed,
        w\<lparr>console := console w @ [(''[ERROR] Something went wrong in rootSaga: '', err)]\<rparr>)
   \<and> fst (rootSaga sagas_var resumed (Completed, w'))
       = (case resumed of Next \<Rightarrow> Return | Throw thrown \<Rightarrow> Raise thrown)
   \<and> handler_maps (snd (snd (run sagas_var (Rejected err) w))) = handler_maps w
   \<and> snapshots (snd (snd (run sagas_var (Rejected err) w))) = snapshots w
   \<and> next_addr (snd (snd (run sagas_var (Rejected err) w))) = next_addr w
   \<and> observe (transition actionList initialState arg action
                (snd (snd (run sagas_var (Rejected err) w))))
       = observe (transition actionList initialState arg action w)"
proof -
  have failed: "run sagas_var (Rejected err) w
     = (Return, Completed,
        w\<lparr>console := console w @ [(''[ERROR] Something went wrong in rootSaga: '', err)]\<rparr>)"
    by (simp add: run_def)
  have completed: "fst (rootSaga sagas_var resumed (Completed, w'))
       = (case resumed of Next \<Rightarrow> Return | Throw thrown \<Rightarrow> Raise thrown)"
    by (cases resumed) simp_all
  show ?thesis
    unfolding failed using completed by (simp add: transition_ignores_console)
qed

text \<open>
  C7. The claim: after assembly every module's handler map, initial state, effects list
  and other fields are as the caller supplied them. The handler map is not:
  \<^verbatim>\<open>getReducer\<close> assigns its reset handler into the object it is given, which is the
  module's own \<^verbatim>\<open>mutations\<close> object. After \<^verbatim>\<open>createStore\<close> the handler map of \<^verbatim>\<open>flag\<close>
  has an entry it did not have before.
\<close>

theorem createStore_writes_handler_map:
  "createStore e2e_modules e2e_config [] e2e_world = Inr e2e_store
   \<and> mutations flag_module = Some 1
   \<and> handler_maps e2e_world 1 ''undefined__RESET__'' = None
   \<and> handler_maps (built_world e2e_store) 1 ''undefined__RESET__''
       = Some (reset_handler (Some 1) None)"
  by (simp add: e2e_createStore) (simp add: e2e_store_def e2e_world_def flag_module_def)

text \<open>
  C7, as amended: assembly writes to the handler-map objects of the registered modules,
  and only at the key of the injected reset handler; every other entry of every handler
  map, every state object (the modules' initial states among them) and the console are
  as before, a handler map that belongs to none of the modules is not written to at all,
  and the modules are registered as they were supplied.
\<close>

theorem createStore_writes_only_reset_entry:
  assumes "createStore modules cfg registry w = Inr b"
  shows "built_registry b = registry @ modules
       \<and> snapshots (built_world b) = snapshots w
       \<and> next_addr (built_world b) = next_addr w
       \<and> console (built_world b) = console w
       \<and> (\<forall>al k. k \<noteq> reset_key None \<longrightarrow>
             handler_maps (built_world b) al k = handler_maps w al k)
       \<and> (\<forall>al. Some al \<notin> set (map (mutations \<circ> snd) modules) \<longrightarrow>
             handler_maps (built_world b) al = handler_maps w al)"
proof -
  from assms obtain sg rl reg w' where
    loop: "forEach modules
             ([], (case reducers cfg of None \<Rightarrow> Map.empty | Some rs \<Rightarrow> rs), registry, w)
           = Inr (sg, rl, reg, w')"
    and b: "built_registry b = reg" "built_world b = w'"
    by (rule createStore_forEach)
  from forEach_sagas_registry [OF loop] forEach_world [OF loop] b show ?thesis by simp
qed

theorem createStore_writes_only_reset_entry_witness:
  "createStore e2e_modules e2e_config [] e2e_world = Inr e2e_store
   \<and> built_registry e2e_store = e2e_modules
   \<and> snapshots (built_world e2e_store) = snapshots e2e_world
   \<and> handler_maps (built_world e2e_store) 1 ''TOGGLE'' = handler_maps e2e_world 1 ''TOGGLE''
   \<and> handler_maps (built_world e2e_store) 2 = handler_maps e2e_world 2"
proof -
  have key: "''TOGGLE'' \<noteq> reset_key None"
    by (simp add: reset_key_def)
  have other: "Some (2::nat) \<notin> set (map (mutations \<circ> snd) e2e_modules)"
    by (simp add: e2e_modules_def counter_module_def flag_module_def)
  from createStore_writes_only_reset_entry [OF e2e_createStore] key other
  have "built_registry e2e_store = e2e_modules
       \<and> snapshots (built_world e2e_store) = snapshots e2e_world
       \<and> handler_maps (built_world e2e_store) 1 ''TOGGLE'' = handler_maps e2e_world 1 ''TOGGLE''
       \<and> handler_maps (built_world e2e_store) 2 = handler_maps e2e_world 2"
    by simp
  with e2e_createStore show ?thesis by simp
qed

text \<open>
  C8. Once \<^verbatim>\<open>createStore\<close> has built the array that \<^verbatim>\<open>rootSaga\<close> hands to \<^verbatim>\<open>all\<close>, for
  modules that each have an effects array, the array is the concatenation of the
  modules' effects arrays, in the order in which the modules are registered (the
  registry has received them in the order of the list), followed by the global effect
  routines of the configuration (none when \<^verbatim>\<open>config.sagas\<close> is absent). For modules A with
  \<open>[e1]\<close> and B with \<open>[e2]\<close> and global \<open>[e3]\<close> it is \<open>[e1, e2, e3]\<close>.
\<close>

theorem sagas_in_registration_order:
  assumes "createStore modules cfg registry w = Inr b"
    and "map (sagas \<circ> snd) modules = map Some effects"
  shows "built_registry b = registry @ modules
       \<and> built_sagas b
           = concat effects @ (case config_sagas cfg of None \<Rightarrow> [] | Some gs \<Rightarrow> gs)"
proof -
  from assms(1) obtain sg rl reg w' where
    loop: "forEach modules
             ([], (case reducers cfg of None \<Rightarrow> Map.empty | Some rs \<Rightarrow> rs), registry, w)
           = Inr (sg, rl, reg, w')"
    and b: "built_sagas b = (case config_sagas cfg of Some gs \<Rightarrow> sg @ gs | None \<Rightarrow> sg)"
      "built_registry b = reg"
    by (rule createStore_forEach)
  have "map (\<lambda>entry. concat_js [] (sagas (snd entry))) modules = effects"
  proof -
    have "map (\<lambda>entry. concat_js [] (sagas (snd entry))) modules
          = map (concat_js []) (map (sagas \<circ> snd) modules)" by simp
    also have "\<dots> = map (concat_js []) (map Some effects)" by (simp only: assms(2))
    also have "\<dots> = effects" by (simp add: concat_js_def map_idI)
    finally show ?thesis .
  qed
  with forEach_sagas_registry [OF loop] have "sg = concat effects" and "reg = registry @ modules"
    by simp_all
  with b show ?thesis by (simp split: option.splits)
qed

theorem sagas_in_registration_order_witness:
  "map (sagas \<circ> snd) [(''A'', counter_module), (''B'', flag_module)]
     = map Some [[Routine 1], [Routine 2]]
   \<and> map_sum id built_sagas
        (createStore [(''A'', counter_module), (''B'', flag_module)] e2e_config [] e2e_world)
       = Inr [Routine 1, Routine 2, Routine 3]
   \<and> map_sum id built_registry
        (createStore [(''A'', counter_module), (''B'', flag_module)] e2e_config [] e2e_world)
       = Inr [(''A'', counter_module), (''B'', flag_module)]"
proof -
  obtain b where b:
    "createStore [(''A'', counter_module), (''B'', flag_module)] e2e_config [] e2e_world = Inr b"
    by (simp add: createStore_def forEach_callback_def getReducer_def
        counter_module_def flag_module_def)
  have effs: "map (sagas \<circ> snd) [(''A'', counter_module), (''B'', flag_module)]
              = map Some [[Routine 1], [Routine 2]]"
    by (simp add: counter_module_def flag_module_def)
  from sagas_in_registration_order [OF b effs]
  have "built_sagas b = [Routine 1, Routine 2, Routine 3]"
    and "built_registry b = [(''A'', counter_module), (''B'', flag_module)]"
    by (simp_all add: e2e_config_def)
  with effs show ?thesis by (simp add: b)
qed

text \<open>
  C9. The claim: when the caller's handler map already has an entry at the module's
  reserved key, the reducer built for the module dispatches the injected reset handler
  for that action type. On the code the caller's entry stays: \<^verbatim>\<open>createStore\<close> calls
  \<^verbatim>\<open>getReducer\<close> without the name, the injected handler goes to \<^verbatim>\<open>undefined__RESET__\<close>,
  and for \<^verbatim>\<open>orders__RESET__\<close> the reducer of \<^verbatim>\<open>orders\<close> runs the caller's handler, which
  here sets \<^verbatim>\<open>items\<close> to \<^verbatim>\<open>['own']\<close>.
\<close>

theorem own_handler_at_reserved_key_runs:
  "createStore [(''orders'', orders_module)] plain_config [] reserved_world = Inr reserved_store
   \<and> built_reducers reserved_store ''orders'' = Some (transition 0 (Some 0))
   \<and> handler_maps (built_world reserved_store) 0 ''orders__RESET__'' = Some own_reset
   \<and> observe (dispatch_all (transition 0 (Some 0)) [add_x, orders_reset] None
                (built_world reserved_store))
       = Inr (Obj [(''items'', Arr [Str ''own''])])"
  by (simp add: reserved_createStore)
     (simp add: reserved_store_def reserved_world_def transition_def get_property_def produce_def observe_def
      content_def add_x_def orders_reset_def push_item_def own_reset_def)

text \<open>
  C10. A module whose \<^verbatim>\<open>sagas\<close> field is absent is not skipped: at the place of its
  effects the aggregated array holds one element, the value \<^verbatim>\<open>undefined\<close>, between what
  the modules before it and the modules after it contributed.
\<close>

theorem absent_sagas_appends_undefined:
  assumes "createStore modules cfg registry w = Inr b"
    and "i < length modules"
    and "sagas (snd (modules ! i)) = None"
  shows "built_sagas b =
           concat (map (\<lambda>entry. concat_js [] (sagas (snd entry))) (take i modules))
           @ [UndefinedItem]
           @ concat (map (\<lambda>entry. concat_js [] (sagas (snd entry))) (drop (Suc i) modules))
           @ (case config_sagas cfg of None \<Rightarrow> [] | Some gs \<Rightarrow> gs)"
proof -
  from assms(1) obtain sg rl reg w' where
    loop: "forEach modules
             ([], (case reducers cfg of None \<Rightarrow> Map.empty | Some rs \<Rightarrow> rs), registry, w)
           = Inr (sg, rl, reg, w')"
    and b: "built_sagas b = (case config_sagas cfg of Some gs \<Rightarrow> sg @ gs | None \<Rightarrow> sg)"
    by (rule createStore_forEach)
  have parts: "modules = take i modules @ modules ! i # drop (Suc i) modules"
    using assms(2) by (simp add: id_take_nth_drop)
  have "sg = concat (map (\<lambda>entry. concat_js [] (sagas (snd entry))) modules)"
    using forEach_sagas_registry [OF loop] by simp
  also have "\<dots> = concat (map (\<lambda>entry. concat_js [] (sagas (snd entry))) (take i modules))
           @ concat_js [] (sagas (snd (modules ! i)))
           @ concat (map (\<lambda>entry. concat_js [] (sagas (snd entry))) (drop (Suc i) modules))"
    by (subst parts) (simp del: append_take_drop_id)
  finally show ?thesis using b assms(3) by (simp add: concat_js_def split: option.splits)
qed

theorem absent_sagas_appends_undefined_witness:
  "sagas (snd ([(''counter'', counter_module), (''orders'', orders_module),
                (''flag'', flag_module)] ! 1)) = None
   \<and> map_sum id built_sagas
        (createStore [(''counter'', counter_module), (''orders'', orders_module),
                      (''flag'', flag_module)] e2e_config [] e2e_world)
       = Inr [Routine 1, UndefinedItem, Routine 2, Routine 3]"
proof -
  obtain b where b:
    "createStore [(''counter'', counter_module), (''orders'', orders_module),
                  (''flag'', flag_module)] e2e_config [] e2e_world = Inr b"
    by (simp add: createStore_def forEach_callback_def getReducer_def
        counter_module_def orders_module_def flag_module_def)
  have len: "1 < length [(''counter'', counter_module), (''orders'', orders_module),
                         (''flag'', flag_module)]"
    by simp
  have absent: "sagas (snd ([(''counter'', counter_module), (''orders'', orders_module),
                             (''flag'', flag_module)] ! 1)) = None"
    by (simp add: orders_module_def)
  from absent_sagas_appends_undefined [OF b len absent]
  have "built_sagas b = [Routine 1, UndefinedItem, Routine 2, Routine 3]"
    by (simp add: concat_js_def counter_module_def flag_module_def e2e_config_def)
  with absent show ?thesis by (simp add: b)
qed

end
